theory Spec2Isabelle
  imports Main
begin

section \<open>The stream reader of \<open>src/stan/io/reader.hpp\<close>\<close>

text \<open>
  The class \<open>stan::io::reader\<close> borrows a sequence of scalars and a sequence of
  integers and keeps one cursor into each. Every member function is modelled as a
  function from the reader before the call to the result of the call and the reader
  after it; a C++ exception is a result \<open>Inl e\<close>, and the reader that comes with it is
  the state the exception leaves behind.

  Sizes and cursors (\<open>size_t\<close>, taken to have 64 bits) are natural numbers below
  \<open>2^64\<close>. Every sum, product and difference the source computes in \<open>size_t\<close> wraps
  around: \<open>size_t x\<close> is the value of an arithmetic result \<open>x\<close> in the type, and
  \<open>size_t_minus\<close> is its subtraction. The integers of the integer sequence (\<open>int\<close>)
  are only compared, never computed with, and are of type \<open>int\<close>.

  An unchecked read (\<open>data_r_[k]\<close>, a mapped block of memory, \<open>vec_c[i]\<close>) yields a
  cell: \<open>Some x\<close> for the element at an index inside the sequence, \<open>None\<close> for an
  index past its end, where the C++ program reads memory that is not part of the
  sequence.

  A member function that declares a container of a given size
  (\<open>std::vector<T> ret_vec(m)\<close>, \<open>vector_t v(m)\<close>, \<open>matrix_t ret_mat(n, m)\<close>, a list of
  triplets) constructs it before it reads, and the construction throws when the
  size is refused. Whether a container of \<open>k\<close> elements can be constructed is the
  answer of the environment, not of the reader: the field \<open>can_construct\<close> of the
  model holds it. It is not a member of the class. An empty container is always
  constructed. The growth of a list while triplets are appended, the copies of a
  result and the work inside the libraries are taken to succeed.
\<close>

subsection \<open>Data\<close>

record 'a reader =
  data_r :: "'a list"
  data_i :: "int list"
  pos :: nat
  int_pos :: nat
  can_construct :: "nat \<Rightarrow> bool"

datatype error =
    Runtime_error string
  | Invalid_argument string
  | Domain_error string
  | Bad_alloc

text \<open>
  \<open>Runtime_error\<close> and \<open>Invalid_argument\<close> are the exceptions the reader throws itself,
  with their messages. \<open>Domain_error\<close> stands for whatever the validation and transform
  libraries throw. \<open>Bad_alloc\<close> is the exception of a container that cannot be
  constructed (\<open>std::bad_alloc\<close>, \<open>std::length_error\<close>).
\<close>

type_synonym ('s, 'v) action = "'s \<Rightarrow> (error + 'v) \<times> 's"

definition ret :: "'v \<Rightarrow> ('s, 'v) action" where
  "ret v s = (Inr v, s)"

definition raise :: "error \<Rightarrow> ('s, 'v) action" where
  "raise e s = (Inl e, s)"

definition bind_op :: "('s, 'v) action \<Rightarrow> ('v \<Rightarrow> ('s, 'w) action) \<Rightarrow> ('s, 'w) action" where
  "bind_op f g s = (case f s of (Inl e, s') \<Rightarrow> (Inl e, s') | (Inr v, s') \<Rightarrow> g v s')"

text \<open>A call into the validation library: \<open>None\<close> when the check passes.\<close>

definition checked :: "error option \<Rightarrow> 'v \<Rightarrow> ('s, 'v) action" where
  "checked c v = (case c of None \<Rightarrow> ret v | Some e \<Rightarrow> raise e)"

text \<open>A call into the transform library, which returns a value or throws.\<close>

definition external :: "error + 'v \<Rightarrow> ('s, 'v) action" where
  "external x = (case x of Inl e \<Rightarrow> raise e | Inr v \<Rightarrow> ret v)"

text \<open>
  The overloads that take \<open>T& lp\<close> run on a pair of the accumulator and the reader.
  \<open>with_lp\<close> runs a member function that does not touch the accumulator;
  \<open>external_lp\<close> calls a Jacobian-aware transform, which returns its value together
  with the accumulator it leaves behind.
\<close>

definition with_lp :: "('r, 'v) action \<Rightarrow> ('p \<times> 'r, 'v) action" where
  "with_lp f s = (case f (snd s) of (x, r') \<Rightarrow> (x, (fst s, r')))"

definition external_lp :: "('p \<Rightarrow> error + 'v \<times> 'p) \<Rightarrow> ('p \<times> 'r, 'v) action" where
  "external_lp g s =
     (case g (fst s) of Inl e \<Rightarrow> (Inl e, s) | Inr (v, lp') \<Rightarrow> (Inr v, (lp', snd s)))"

text \<open>
  Modelled from the spec: the dense and sparse containers of the linear-algebra
  library (Eigen), which is not under \<open>src/\<close>. A dense matrix has a column-major
  layout: coefficient \<open>(i, j)\<close> of a matrix with \<open>n\<close> rows is stored at index
  \<open>j * n + i\<close>. A sparse matrix is built from a list of (row, column, value) triplets
  and is represented by its dimensions and that list. A triplet stores its two
  indices as \<open>int\<close>: an index of a wider type is narrowed, and a column index read
  outside \<open>vec_c\<close> is a cell \<open>None\<close>. Vectors and row vectors are the lists of their
  coefficients.
\<close>

record 'x matrix_t =
  rows :: nat
  cols :: nat
  coeffs :: "'x list"

definition coeff :: "'x matrix_t \<Rightarrow> nat \<Rightarrow> nat \<Rightarrow> 'x" where
  "coeff M i j = coeffs M ! (j * rows M + i)"

type_synonym 'x triplet = "int \<times> int option \<times> 'x"

definition narrow_int :: "int \<Rightarrow> int" where
  "narrow_int x = (x + 2 ^ 31) mod 2 ^ 32 - 2 ^ 31"

record 'x sparse_matrix_t =
  sp_rows :: nat
  sp_cols :: nat
  sp_triplets :: "'x triplet list"

definition empty_matrix :: "nat \<Rightarrow> nat \<Rightarrow> 'x matrix_t" where
  "empty_matrix n m = \<lparr>rows = n, cols = m, coeffs = []\<rparr>"

definition empty_sparse :: "nat \<Rightarrow> nat \<Rightarrow> 'x sparse_matrix_t" where
  "empty_sparse n m = \<lparr>sp_rows = n, sp_cols = m, sp_triplets = []\<rparr>"

subsection \<open>Cursors\<close>

definition size_t :: "nat \<Rightarrow> nat" where
  "size_t x = x mod 2 ^ 64"

definition size_t_minus :: "nat \<Rightarrow> nat \<Rightarrow> nat" where
  "size_t_minus a b = (if b \<le> a then a - b else a + 2 ^ 64 - b)"

definition constructed :: "nat \<Rightarrow> ('a reader, unit) action" where
  "constructed k r =
     (if k = 0 \<or> can_construct r k then (Inr (), r) else (Inl Bad_alloc, r))"

definition cell_at :: "'a reader \<Rightarrow> nat \<Rightarrow> 'a option" where
  "cell_at r k = (if k < length (data_r r) then Some (data_r r ! k) else None)"

text \<open>The block of \<open>m\<close> cells that starts at index \<open>p\<close> (an \<open>Eigen::Map\<close> or a copy).\<close>

definition block_at :: "'a reader \<Rightarrow> nat \<Rightarrow> nat \<Rightarrow> 'a option list" where
  "block_at r p m = map (cell_at r) [p ..< p + m]"

text \<open>
  \<open>scalar_ptr_increment\<close> and \<open>int_ptr_increment\<close> add to the cursor
  (\<open>pos_ += m\<close>) and return a reference into the sequence (\<open>data_r_[pos_ - m]\<close>); the
  model returns the index referred to.
\<close>

definition scalar_ptr_increment :: "nat \<Rightarrow> 'a reader \<Rightarrow> nat \<times> 'a reader" where
  "scalar_ptr_increment m r =
     (let r' = r\<lparr>pos := size_t (pos r + m)\<rparr> in (size_t_minus (pos r') m, r'))"



definition available_i :: "'a reader \<Rightarrow> nat" where
  "available_i r = size_t_minus (length (data_i r)) (int_pos r)"

definition integer :: "('a reader, int) action" where
  "integer r =
     (if int_pos r \<ge> length (data_i r)
      then (Inl (Runtime_error ''no more integers to read.''), r)
      else (Inr (data_i r ! int_pos r), r\<lparr>int_pos := int_pos r + 1\<rparr>))"

definition scalar :: "('a reader, 'a) action" where
  "scalar r =
     (if pos r \<ge> length (data_r r)
      then (Inl (Runtime_error ''no more scalars to read''), r)
      else (Inr (data_r r ! pos r), r\<lparr>pos := pos r + 1\<rparr>))"






subsection \<open>Bulk extraction\<close>

definition std_vector :: "nat \<Rightarrow> ('a reader, 'a option list) action" where
  "std_vector m =
     bind_op (constructed m) (\<lambda>_ r.
       if m = 0 then (Inr [], r)
       else (Inr (block_at r (pos r) m), r\<lparr>pos := size_t (pos r + m)\<rparr>))"

definition vector :: "nat \<Rightarrow> ('a reader, 'a option list) action" where
  "vector m =
     bind_op (constructed m) (\<lambda>_ r.
       if m = 0 then (Inr [], r)
       else (case scalar_ptr_increment m r of (p, r') \<Rightarrow> (Inr (block_at r' p m), r')))"



definition row_vector :: "nat \<Rightarrow> ('a reader, 'a option list) action" where
  "row_vector m =
     bind_op (constructed m) (\<lambda>_ r.
       if m = 0 then (Inr [], r)
       else (case scalar_ptr_increment m r of (p, r') \<Rightarrow> (Inr (block_at r' p m), r')))"



definition matrix :: "nat \<Rightarrow> nat \<Rightarrow> ('a reader, 'a option matrix_t) action" where
  "matrix n m =
     bind_op (constructed (n * m)) (\<lambda>_ r.
       if m = 0 \<or> n = 0 then (Inr (empty_matrix n m), r)
       else (case scalar_ptr_increment (size_t (n * m)) r of
               (p, r') \<Rightarrow> (Inr \<lparr>rows = n, cols = m, coeffs = block_at r' p (n * m)\<rparr>, r')))"



text \<open>
  The loop of the sparse accessors, \<open>for (i = 0; i < vec_r.size(); i++)\<close>, reads
  \<open>vec_r[i]\<close>, \<open>vec_c[i]\<close> and one value and appends the triplet. It runs over
  \<open>vec_r\<close> and tests no other length: once \<open>vec_c\<close> has ended, \<open>vec_c[i]\<close> is read
  outside it and the loop goes on.
\<close>

primrec fill_triplets ::
  "int list \<Rightarrow> int list \<Rightarrow> ('s, 'x) action \<Rightarrow> ('s, 'x triplet list) action" where
  "fill_triplets [] vec_c f = ret []"
| "fill_triplets (i # vec_r) vec_c f =
     bind_op f (\<lambda>x. bind_op (fill_triplets vec_r (tl vec_c) f)
                       (\<lambda>ts. ret ((narrow_int i,
                                    (case vec_c of [] \<Rightarrow> None | j # _ \<Rightarrow> Some (narrow_int j)),
                                    x) # ts)))"

text \<open>
  \<open>std::vector<triplet_type> triplet_list(vec_r.size())\<close> constructs a list that
  already holds \<open>vec_r.size()\<close> default triplets (row 0, column 0, value 0), and
  \<open>emplace_back\<close> appends to it. \<open>sparse_matrix_lb\<close> alone constructs an empty list,
  reserves room for \<open>vec_r.size()\<close> triplets and appends with \<open>push_back\<close>; it also
  reserves room in the matrix before it tests the dimensions. The flag \<open>sized\<close> of
  \<open>fill_sparse\<close> says which of the two the accessor does. The sparse matrix itself
  is constructed empty.
\<close>

definition presized :: "int list \<Rightarrow> 'x \<Rightarrow> 'x triplet list" where
  "presized vec_r zero_value = replicate (length vec_r) (0, Some 0, zero_value)"

definition from_triplets :: "nat \<Rightarrow> nat \<Rightarrow> 'x triplet list \<Rightarrow> 'x sparse_matrix_t" where
  "from_triplets n m ts = \<lparr>sp_rows = n, sp_cols = m, sp_triplets = ts\<rparr>"

definition next_cell :: "('a reader, 'a option) action" where
  "next_cell r = (case scalar_ptr_increment 1 r of (p, r') \<Rightarrow> (Inr (cell_at r' p), r'))"

definition fill_sparse ::
  "bool \<Rightarrow> 'v \<Rightarrow> int list \<Rightarrow> int list \<Rightarrow> nat \<Rightarrow> nat \<Rightarrow> ('a reader, 'v) action
     \<Rightarrow> ('a reader, 'v sparse_matrix_t) action" where
  "fill_sparse sized zero_value vec_r vec_c n m f =
     bind_op (if sized then ret () else constructed (length vec_r)) (\<lambda>_.
       if m = 0 \<or> n = 0 then ret (empty_sparse n m)
       else bind_op (constructed (length vec_r)) (\<lambda>_.
              bind_op (fill_triplets vec_r vec_c f)
                (\<lambda>ts. ret (from_triplets n m
                             ((if sized then presized vec_r zero_value else []) @ ts)))))"

text \<open>The same for the overloads that carry the accumulator.\<close>

definition fill_sparse_lp ::
  "'v \<Rightarrow> int list \<Rightarrow> int list \<Rightarrow> nat \<Rightarrow> nat \<Rightarrow> ('p \<times> 'a reader, 'v) action
     \<Rightarrow> ('p \<times> 'a reader, 'v sparse_matrix_t) action" where
  "fill_sparse_lp zero_value vec_r vec_c n m f =
     (if m = 0 \<or> n = 0 then ret (empty_sparse n m)
      else bind_op (with_lp (constructed (length vec_r))) (\<lambda>_.
             bind_op (fill_triplets vec_r vec_c f)
               (\<lambda>ts. ret (from_triplets n m (presized vec_r zero_value @ ts)))))"

definition sparse_matrix ::
  "int list \<Rightarrow> int list \<Rightarrow> nat \<Rightarrow> nat \<Rightarrow> ('a::zero reader, 'a option sparse_matrix_t) action" where
  "sparse_matrix vec_r vec_c n m = fill_sparse True (Some 0) vec_r vec_c n m next_cell"



subsection \<open>Bounded integers\<close>

definition integer_lb :: "int \<Rightarrow> ('a reader, int) action" where
  "integer_lb lb =
     bind_op integer (\<lambda>i.
       if \<not> (i \<ge> lb)
       then raise (Runtime_error ''required value greater than or equal to lb'')
       else ret i)"



definition integer_ub :: "int \<Rightarrow> ('a reader, int) action" where
  "integer_ub ub =
     bind_op integer (\<lambda>i.
       if \<not> (i \<le> ub)
       then raise (Runtime_error ''required value less than or equal to ub'')
       else ret i)"



definition integer_lub :: "int \<Rightarrow> int \<Rightarrow> ('a reader, int) action" where
  "integer_lub lb ub =
     bind_op integer (\<lambda>i.
       if lb > ub
       then raise (Runtime_error ''lower bound must be less than or equal to ub'')
       else if \<not> (i \<ge> lb)
       then raise (Runtime_error ''required value greater than or equal to lb'')
       else if \<not> (i \<le> ub)
       then raise (Runtime_error ''required value less than or equal to ub'')
       else ret i)"



subsection \<open>Scalars with a constraint\<close>




definition scalar_lb ::
  "(string \<Rightarrow> string \<Rightarrow> 'a \<Rightarrow> 'l \<Rightarrow> error option) \<Rightarrow> 'l \<Rightarrow> ('a reader, 'a) action" where
  "scalar_lb check_greater_or_equal lb =
     bind_op scalar (\<lambda>x. checked (check_greater_or_equal ''stan::io::scalar_lb'' ''Constrained scalar'' x lb) x)"









text \<open>\<open>scalar_offset_multiplier\<close> reads the next scalar and ignores both arguments.\<close>

definition scalar_offset_multiplier :: "'l \<Rightarrow> 'm \<Rightarrow> ('a reader, 'a) action" where
  "scalar_offset_multiplier offset multiplier = bind_op scalar (\<lambda>x. ret x)"

definition scalar_offset_multiplier_constrain ::
  "('a \<Rightarrow> 'l \<Rightarrow> 'm \<Rightarrow> error + 'a) \<Rightarrow> 'l \<Rightarrow> 'm \<Rightarrow> ('a reader, 'a) action" where
  "scalar_offset_multiplier_constrain offset_multiplier_constrain offset multiplier =
     bind_op scalar (\<lambda>x. external (offset_multiplier_constrain x offset multiplier))"








subsection \<open>Constrained vectors and matrices\<close>

definition unit_vector ::
  "(string \<Rightarrow> string \<Rightarrow> 'a option list \<Rightarrow> error option) \<Rightarrow> nat
     \<Rightarrow> ('a reader, 'a option list) action" where
  "unit_vector check_unit_vector k =
     (if k = 0 then raise (Invalid_argument ''io::unit_vector: unit vectors cannot be size 0.'')
      else bind_op (vector k)
             (\<lambda>theta. checked (check_unit_vector ''stan::io::unit_vector'' ''Constrained vector'' theta) theta))"

definition unit_vector_constrain ::
  "('a option list \<Rightarrow> error + 'b) \<Rightarrow> nat \<Rightarrow> ('a reader, 'b) action" where
  "unit_vector_constrain unit_vector_constrain_fn k =
     (if k = 0 then raise (Invalid_argument ''io::unit_vector_constrain: unit vectors cannot be size 0.'')
      else bind_op (vector (k)) (\<lambda>x. external (unit_vector_constrain_fn x)))"

definition unit_vector_constrain_lp ::
  "('a option list \<Rightarrow> 'a \<Rightarrow> error + 'b \<times> 'a) \<Rightarrow> nat \<Rightarrow> ('a \<times> 'a reader, 'b) action" where
  "unit_vector_constrain_lp unit_vector_constrain_fn k =
     (if k = 0 then raise (Invalid_argument ''io::unit_vector_constrain: unit vectors cannot be size 0.'')
      else bind_op (with_lp (vector (k))) (\<lambda>x. external_lp (unit_vector_constrain_fn x)))"

definition simplex ::
  "(string \<Rightarrow> string \<Rightarrow> 'a option list \<Rightarrow> error option) \<Rightarrow> nat
     \<Rightarrow> ('a reader, 'a option list) action" where
  "simplex check_simplex k =
     (if k = 0 then raise (Invalid_argument ''io::simplex: simplexes cannot be size 0.'')
      else bind_op (vector k)
             (\<lambda>theta. checked (check_simplex ''stan::io::simplex'' ''Constrained vector'' theta) theta))"

definition simplex_constrain ::
  "('a option list \<Rightarrow> error + 'b) \<Rightarrow> nat \<Rightarrow> ('a reader, 'b) action" where
  "simplex_constrain simplex_constrain_fn k =
     (if k = 0 then raise (Invalid_argument ''io::simplex_constrain: simplexes cannot be size 0.'')
      else bind_op (vector (size_t_minus k 1)) (\<lambda>x. external (simplex_constrain_fn x)))"

definition simplex_constrain_lp ::
  "('a option list \<Rightarrow> 'a \<Rightarrow> error + 'b \<times> 'a) \<Rightarrow> nat \<Rightarrow> ('a \<times> 'a reader, 'b) action" where
  "simplex_constrain_lp simplex_constrain_fn k =
     (if k = 0 then raise (Invalid_argument ''io::simplex_constrain: simplexes cannot be size 0.'')
      else bind_op (with_lp (vector (size_t_minus k 1))) (\<lambda>x. external_lp (simplex_constrain_fn x)))"

definition ordered ::
  "(string \<Rightarrow> string \<Rightarrow> 'a option list \<Rightarrow> error option) \<Rightarrow> nat
     \<Rightarrow> ('a reader, 'a option list) action" where
  "ordered check_ordered k =
     bind_op (vector k) (\<lambda>x. checked (check_ordered ''stan::io::ordered'' ''Constrained vector'' x) x)"

definition ordered_constrain ::
  "('a option list \<Rightarrow> error + 'b) \<Rightarrow> nat \<Rightarrow> ('a reader, 'b) action" where
  "ordered_constrain ordered_constrain_fn k = bind_op (vector k) (\<lambda>x. external (ordered_constrain_fn x))"

definition ordered_constrain_lp ::
  "('a option list \<Rightarrow> 'a \<Rightarrow> error + 'b \<times> 'a) \<Rightarrow> nat \<Rightarrow> ('a \<times> 'a reader, 'b) action" where
  "ordered_constrain_lp ordered_constrain_fn k =
     bind_op (with_lp (vector k)) (\<lambda>x. external_lp (ordered_constrain_fn x))"

definition positive_ordered ::
  "(string \<Rightarrow> string \<Rightarrow> 'a option list \<Rightarrow> error option) \<Rightarrow> nat
     \<Rightarrow> ('a reader, 'a option list) action" where
  "positive_ordered check_positive_ordered k =
     bind_op (vector k) (\<lambda>x. checked (check_positive_ordered ''stan::io::positive_ordered'' ''Constrained vector'' x) x)"

definition positive_ordered_constrain ::
  "('a option list \<Rightarrow> error + 'b) \<Rightarrow> nat \<Rightarrow> ('a reader, 'b) action" where
  "positive_ordered_constrain positive_ordered_constrain_fn k = bind_op (vector k) (\<lambda>x. external (positive_ordered_constrain_fn x))"

definition positive_ordered_constrain_lp ::
  "('a option list \<Rightarrow> 'a \<Rightarrow> error + 'b \<times> 'a) \<Rightarrow> nat \<Rightarrow> ('a \<times> 'a reader, 'b) action" where
  "positive_ordered_constrain_lp positive_ordered_constrain_fn k =
     bind_op (with_lp (vector k)) (\<lambda>x. external_lp (positive_ordered_constrain_fn x))"

text \<open>
  The unconstrained sizes \<open>(m * (m + 1)) / 2 + (n - m) * m\<close>, \<open>(K * (K - 1)) / 2\<close>
  and \<open>k + (k * (k - 1)) / 2\<close>, computed in \<open>size_t\<close>, every operation of them.
\<close>

definition cholesky_factor_cov_size :: "nat \<Rightarrow> nat \<Rightarrow> nat" where
  "cholesky_factor_cov_size n m =
     size_t (size_t (m * size_t (m + 1)) div 2 + size_t (size_t_minus n m * m))"

definition corr_size :: "nat \<Rightarrow> nat" where
  "corr_size k = size_t (k * size_t_minus k 1) div 2"

definition cov_size :: "nat \<Rightarrow> nat" where
  "cov_size k = size_t (k + size_t (k * size_t_minus k 1) div 2)"

definition cholesky_factor_cov ::
  "(string \<Rightarrow> string \<Rightarrow> 'a option matrix_t \<Rightarrow> error option) \<Rightarrow> nat \<Rightarrow> nat
     \<Rightarrow> ('a reader, 'a option matrix_t) action" where
  "cholesky_factor_cov check_cholesky_factor n m =
     bind_op (matrix n m)
       (\<lambda>y. checked (check_cholesky_factor ''stan::io::cholesky_factor_cov'' ''Constrained matrix'' y) y)"

definition cholesky_factor_cov_constrain ::
  "('a option list \<Rightarrow> nat \<Rightarrow> nat \<Rightarrow> error + 'b) \<Rightarrow> nat \<Rightarrow> nat \<Rightarrow> ('a reader, 'b) action" where
  "cholesky_factor_cov_constrain cholesky_factor_constrain n m =
     bind_op (vector (cholesky_factor_cov_size n m))
       (\<lambda>x. external (cholesky_factor_constrain x n m))"

definition cholesky_factor_cov_constrain_lp ::
  "('a option list \<Rightarrow> nat \<Rightarrow> nat \<Rightarrow> 'a \<Rightarrow> error + 'b \<times> 'a) \<Rightarrow> nat \<Rightarrow> nat
     \<Rightarrow> ('a \<times> 'a reader, 'b) action" where
  "cholesky_factor_cov_constrain_lp cholesky_factor_constrain n m =
     bind_op (with_lp (vector (cholesky_factor_cov_size n m)))
       (\<lambda>x. external_lp (cholesky_factor_constrain x n m))"

definition cholesky_factor_corr ::
  "(string \<Rightarrow> string \<Rightarrow> 'a option matrix_t \<Rightarrow> error option) \<Rightarrow> nat
     \<Rightarrow> ('a reader, 'a option matrix_t) action" where
  "cholesky_factor_corr check_cholesky_factor_corr k =
     bind_op (matrix k k) (\<lambda>y. checked (check_cholesky_factor_corr ''stan::io::cholesky_factor_corr'' ''Constrained matrix'' y) y)"

definition cholesky_factor_corr_constrain ::
  "('a option list \<Rightarrow> nat \<Rightarrow> error + 'b) \<Rightarrow> nat \<Rightarrow> ('a reader, 'b) action" where
  "cholesky_factor_corr_constrain cholesky_corr_constrain k =
     bind_op (vector (corr_size k)) (\<lambda>x. external (cholesky_corr_constrain x k))"

definition cholesky_factor_corr_constrain_lp ::
  "('a option list \<Rightarrow> nat \<Rightarrow> 'a \<Rightarrow> error + 'b \<times> 'a) \<Rightarrow> nat \<Rightarrow> ('a \<times> 'a reader, 'b) action" where
  "cholesky_factor_corr_constrain_lp cholesky_corr_constrain k =
     bind_op (with_lp (vector (corr_size k))) (\<lambda>x. external_lp (cholesky_corr_constrain x k))"

definition cov_matrix ::
  "(string \<Rightarrow> string \<Rightarrow> 'a option matrix_t \<Rightarrow> error option) \<Rightarrow> nat
     \<Rightarrow> ('a reader, 'a option matrix_t) action" where
  "cov_matrix check_cov_matrix k =
     bind_op (matrix k k) (\<lambda>y. checked (check_cov_matrix ''stan::io::cov_matrix'' ''Constrained matrix'' y) y)"

definition cov_matrix_constrain ::
  "('a option list \<Rightarrow> nat \<Rightarrow> error + 'b) \<Rightarrow> nat \<Rightarrow> ('a reader, 'b) action" where
  "cov_matrix_constrain cov_matrix_constrain_fn k =
     bind_op (vector (cov_size k)) (\<lambda>x. external (cov_matrix_constrain_fn x k))"

definition cov_matrix_constrain_lp ::
  "('a option list \<Rightarrow> nat \<Rightarrow> 'a \<Rightarrow> error + 'b \<times> 'a) \<Rightarrow> nat \<Rightarrow> ('a \<times> 'a reader, 'b) action" where
  "cov_matrix_constrain_lp cov_matrix_constrain_fn k =
     bind_op (with_lp (vector (cov_size k))) (\<lambda>x. external_lp (cov_matrix_constrain_fn x k))"

definition corr_matrix ::
  "(string \<Rightarrow> string \<Rightarrow> 'a option matrix_t \<Rightarrow> error option) \<Rightarrow> nat
     \<Rightarrow> ('a reader, 'a option matrix_t) action" where
  "corr_matrix check_corr_matrix k =
     bind_op (matrix k k) (\<lambda>y. checked (check_corr_matrix ''stan::math::corr_matrix'' ''Constrained matrix'' y) y)"

definition corr_matrix_constrain ::
  "('a option list \<Rightarrow> nat \<Rightarrow> error + 'b) \<Rightarrow> nat \<Rightarrow> ('a reader, 'b) action" where
  "corr_matrix_constrain corr_matrix_constrain_fn k =
     bind_op (vector (corr_size k)) (\<lambda>x. external (corr_matrix_constrain_fn x k))"

definition corr_matrix_constrain_lp ::
  "('a option list \<Rightarrow> nat \<Rightarrow> 'a \<Rightarrow> error + 'b \<times> 'a) \<Rightarrow> nat \<Rightarrow> ('a \<times> 'a reader, 'b) action" where
  "corr_matrix_constrain_lp corr_matrix_constrain_fn k =
     bind_op (with_lp (vector (corr_size k))) (\<lambda>x. external_lp (corr_matrix_constrain_fn x k))"

subsection \<open>Batches of constrained scalars\<close>

text \<open>
  \<open>for (i = 0; i < m; ++i) v(i) = f()\<close>: the values of \<open>m\<close> calls in a row. An
  exception leaves the loop, with the cursor where the calls made so far put it.
  A dense matrix is filled by \<open>for (j = 0; j < m; ++j) for (i = 0; i < n; ++i)\<close>,
  column after column, which is the order of its storage. The vector \<open>v(m)\<close> or the
  matrix \<open>v(n, m)\<close> is constructed before the loop.
\<close>

primrec fill :: "nat \<Rightarrow> ('s, 'v) action \<Rightarrow> ('s, 'v list) action" where
  "fill 0 f = ret []"
| "fill (Suc k) f = bind_op f (\<lambda>v. bind_op (fill k f) (\<lambda>vs. ret (v # vs)))"

definition fill_vector :: "nat \<Rightarrow> ('a reader, 'v) action \<Rightarrow> ('a reader, 'v list) action" where
  "fill_vector m f = bind_op (constructed m) (\<lambda>_. fill m f)"

definition fill_vector_lp ::
  "nat \<Rightarrow> ('p \<times> 'a reader, 'v) action \<Rightarrow> ('p \<times> 'a reader, 'v list) action" where
  "fill_vector_lp m f = bind_op (with_lp (constructed m)) (\<lambda>_. fill m f)"

definition fill_matrix ::
  "nat \<Rightarrow> nat \<Rightarrow> ('a reader, 'v) action \<Rightarrow> ('a reader, 'v matrix_t) action" where
  "fill_matrix n m f =
     bind_op (constructed (n * m)) (\<lambda>_.
       bind_op (fill m (fill n f))
         (\<lambda>columns. ret \<lparr>rows = n, cols = m, coeffs = concat columns\<rparr>))"

definition fill_matrix_lp ::
  "nat \<Rightarrow> nat \<Rightarrow> ('p \<times> 'a reader, 'v) action \<Rightarrow> ('p \<times> 'a reader, 'v matrix_t) action" where
  "fill_matrix_lp n m f =
     bind_op (with_lp (constructed (n * m))) (\<lambda>_.
       bind_op (fill m (fill n f))
         (\<lambda>columns. ret \<lparr>rows = n, cols = m, coeffs = concat columns\<rparr>))"










text \<open>
  \<open>sparse_matrix_lb\<close> reserves room in its triplet list and appends with
  \<open>push_back\<close>; every other sparse accessor starts from a list of \<open>vec_r.size()\<close>
  default triplets.
\<close>

definition sparse_matrix_lb ::
  "(string \<Rightarrow> string \<Rightarrow> 'a \<Rightarrow> 'l \<Rightarrow> error option) \<Rightarrow> 'l \<Rightarrow> int list \<Rightarrow> int list \<Rightarrow> nat \<Rightarrow> nat
     \<Rightarrow> ('a::zero reader, 'a sparse_matrix_t) action" where
  "sparse_matrix_lb check_greater_or_equal lb vec_r vec_c n m =
     fill_sparse False 0 vec_r vec_c n m (scalar_lb check_greater_or_equal lb)"


































definition matrix_offset_multiplier_constrain ::
  "('a \<Rightarrow> 'l \<Rightarrow> 'm \<Rightarrow> error + 'a) \<Rightarrow> 'l \<Rightarrow> 'm \<Rightarrow> nat \<Rightarrow> nat \<Rightarrow> ('a reader, 'a matrix_t) action" where
  "matrix_offset_multiplier_constrain offset_multiplier_constrain offset multiplier n m = fill_matrix n m (scalar_offset_multiplier_constrain offset_multiplier_constrain offset multiplier)"


text \<open>
  Both \<open>sparse_matrix_offset_multiplier\<close> and
  \<open>sparse_matrix_offset_multiplier_constrain\<close> read their values with
  \<open>scalar_offset_multiplier\<close>. The overload of the latter with \<open>T& lp\<close> calls
  \<open>scalar_offset_multiplier(offset, multiplier, lp)\<close>, a member function that does
  not exist, so it cannot be instantiated and has no model.
\<close>

definition sparse_matrix_offset_multiplier ::
  "'l \<Rightarrow> 'm \<Rightarrow> int list \<Rightarrow> int list \<Rightarrow> nat \<Rightarrow> nat
     \<Rightarrow> ('a::zero reader, 'a sparse_matrix_t) action" where
  "sparse_matrix_offset_multiplier offset multiplier vec_r vec_c n m =
     fill_sparse True 0 vec_r vec_c n m (scalar_offset_multiplier offset multiplier)"

definition sparse_matrix_offset_multiplier_constrain ::
  "'l \<Rightarrow> 'm \<Rightarrow> int list \<Rightarrow> int list \<Rightarrow> nat \<Rightarrow> nat
     \<Rightarrow> ('a::zero reader, 'a sparse_matrix_t) action" where
  "sparse_matrix_offset_multiplier_constrain offset multiplier vec_r vec_c n m =
     fill_sparse True 0 vec_r vec_c n m (scalar_offset_multiplier offset multiplier)"


subsection \<open>Room for a bulk read, and the order of the cursors\<close>

text \<open>
  \<open>room r k\<close>: a container of \<open>k\<close> scalars can be constructed, and the cursor of \<open>r\<close>
  can advance by \<open>k\<close> without wrapping around.
\<close>

definition room :: "'a reader \<Rightarrow> nat \<Rightarrow> bool" where
  "room r k \<longleftrightarrow> (k = 0 \<or> can_construct r k) \<and> pos r + k < 2 ^ 64"

text \<open>
  \<open>not_before r r'\<close>: neither cursor of \<open>r'\<close> lies before the same cursor of \<open>r\<close>.
  A member function is \<open>forward\<close> when the reader it leaves behind is never before the
  reader it started from, whatever its result. It is forward \<open>within k\<close> when this
  holds for every reader whose scalar cursor plus \<open>k\<close> stays below \<open>2^64\<close>, where \<open>k\<close>
  is the number the call adds to the cursor. \<open>forward_lp\<close> and \<open>within_lp\<close> say the
  same of an overload that also carries the accumulator.
\<close>

definition not_before :: "'a reader \<Rightarrow> 'a reader \<Rightarrow> bool" where
  "not_before r r' \<longleftrightarrow> pos r \<le> pos r' \<and> int_pos r \<le> int_pos r'"

definition forward_on :: "('s \<Rightarrow> 'a reader) \<Rightarrow> ('s, 'v) action \<Rightarrow> bool" where
  "forward_on rd f \<longleftrightarrow> (\<forall>s. not_before (rd s) (rd (snd (f s))))"

definition forward_within :: "('s \<Rightarrow> 'a reader) \<Rightarrow> nat \<Rightarrow> ('s, 'v) action \<Rightarrow> bool" where
  "forward_within rd k f \<longleftrightarrow>
     (\<forall>s. pos (rd s) + k < 2 ^ 64 \<longrightarrow> not_before (rd s) (rd (snd (f s))))"

abbreviation forward :: "('a reader, 'v) action \<Rightarrow> bool" where
  "forward \<equiv> forward_on (\<lambda>r. r)"

abbreviation forward_lp :: "('p \<times> 'a reader, 'v) action \<Rightarrow> bool" where
  "forward_lp \<equiv> forward_on snd"

abbreviation within :: "nat \<Rightarrow> ('a reader, 'v) action \<Rightarrow> bool" where
  "within \<equiv> forward_within (\<lambda>r. r)"

abbreviation within_lp :: "nat \<Rightarrow> ('p \<times> 'a reader, 'v) action \<Rightarrow> bool" where
  "within_lp \<equiv> forward_within snd"

named_theorems forward_intros

section \<open>Properties\<close>

subsection \<open>The cursor arithmetic and the bulk extractors\<close>

lemma bind_op_Inr: "f s = (Inr v, s') \<Longrightarrow> bind_op f g s = g v s'"
  by (simp add: bind_op_def)

lemma bind_op_Inl: "f s = (Inl e, s') \<Longrightarrow> bind_op f g s = (Inl e, s')"
  by (simp add: bind_op_def)

lemma size_t_id: "x < 2 ^ 64 \<Longrightarrow> size_t x = x"
  by (simp add: size_t_def)

lemma size_t_minus_le: "b \<le> a \<Longrightarrow> size_t_minus a b = a - b"
  by (simp add: size_t_minus_def)

lemma constructed_ok: "k = 0 \<or> can_construct r k \<Longrightarrow> constructed k r = (Inr (), r)"
  by (simp add: constructed_def)

lemma constructed_refused:
  "0 < k \<Longrightarrow> \<not> can_construct r k \<Longrightarrow> constructed k r = (Inl Bad_alloc, r)"
  by (simp add: constructed_def)

text \<open>
  Below the wrap-around \<open>scalar_ptr_increment\<close> adds \<open>m\<close> to the cursor and refers to the
  cell the cursor was at.
\<close>

lemma scalar_ptr_increment_eq:
  "pos r + m < 2 ^ 64 \<Longrightarrow> scalar_ptr_increment m r = (pos r, r\<lparr>pos := pos r + m\<rparr>)"
  by (simp add: scalar_ptr_increment_def size_t_id size_t_minus_le)

lemma cell_at_pos_update [simp]: "cell_at (r\<lparr>pos := p\<rparr>) k = cell_at r k"
  by (simp add: cell_at_def)

lemma block_at_pos_update [simp]: "block_at (r\<lparr>pos := p\<rparr>) k m = block_at r k m"
  by (simp add: block_at_def cong: map_cong)

lemma length_block_at [simp]: "length (block_at r p m) = m"
  by (simp add: block_at_def)

lemma nth_block_at: "k < m \<Longrightarrow> block_at r p m ! k = cell_at r (p + k)"
  by (simp add: block_at_def)

lemma block_at_Suc: "block_at r p (Suc m) = cell_at r p # block_at r (Suc p) m"
  unfolding block_at_def by (subst upt_rec) simp


text \<open>
  The bulk extractors in closed form, when the container can be constructed and the
  cursor does not wrap around. The guard for a size of zero gives the same result as
  the general case, an empty block and an unchanged cursor.
\<close>

lemma vector_eq:
  "room r m \<Longrightarrow> vector m r = (Inr (block_at r (pos r) m), r\<lparr>pos := pos r + m\<rparr>)"
  by (auto simp add: room_def vector_def bind_op_def constructed_def scalar_ptr_increment_eq
      block_at_def)



lemma matrix_eq:
  assumes "room r (n * m)"
  shows "matrix n m r =
     (Inr \<lparr>rows = n, cols = m, coeffs = block_at r (pos r) (n * m)\<rparr>, r\<lparr>pos := pos r + n * m\<rparr>)"
proof -
  have nm: "n * m < 2 ^ 64" and p: "pos r + n * m < 2 ^ 64"
    using assms by (simp_all add: room_def)
  have c: "constructed (n * m) r = (Inr (), r)"
    using assms by (simp add: room_def constructed_def)
  show ?thesis
    using p
    by (auto simp add: matrix_def bind_op_def c size_t_id [OF nm] scalar_ptr_increment_eq
        block_at_def empty_matrix_def)
qed

lemma next_cell_eq:
  "pos r + 1 < 2 ^ 64 \<Longrightarrow> next_cell r = (Inr (cell_at r (pos r)), r\<lparr>pos := pos r + 1\<rparr>)"
  using scalar_ptr_increment_eq [of r 1] by (simp add: next_cell_def)

text \<open>
  A construction that is refused leaves the reader as it was.
\<close>

lemma bulk_refused:
  assumes "0 < m" and "\<not> can_construct r m"
  shows "vector m r = (Inl Bad_alloc, r)" and "row_vector m r = (Inl Bad_alloc, r)"
    and "std_vector m r = (Inl Bad_alloc, r)"
  using assms by (simp_all add: vector_def row_vector_def std_vector_def bind_op_def constructed_def)

text \<open>
  The loop of \<open>sparse_matrix\<close> consumes one cell for each row index, whatever the
  length of \<open>vec_c\<close>; with enough column indices the triplets pair the narrowed indices
  with the cells in their order.
\<close>

lemma fill_triplets_next_cell:
  "pos r + length vec_r < 2 ^ 64 \<Longrightarrow>
   \<exists>ts. fill_triplets vec_r vec_c next_cell r = (Inr ts, r\<lparr>pos := pos r + length vec_r\<rparr>) \<and>
        length ts = length vec_r \<and>
        (length vec_r \<le> length vec_c \<longrightarrow>
           ts = zip (map narrow_int vec_r)
                  (zip (map (\<lambda>j. Some (narrow_int j)) vec_c) (block_at r (pos r) (length vec_r))))"
proof (induction vec_r arbitrary: vec_c r)
  case Nil
  then show ?case by (simp add: ret_def block_at_def)
next
  case (Cons i vec_r)
  let ?r1 = "r\<lparr>pos := pos r + 1\<rparr>"
  have first: "next_cell r = (Inr (cell_at r (pos r)), ?r1)"
    using Cons.prems by (intro next_cell_eq) simp
  have "pos ?r1 + length vec_r < 2 ^ 64"
    using Cons.prems by simp
  from Cons.IH [OF this, of "tl vec_c"]
  obtain ts where
    rest: "fill_triplets vec_r (tl vec_c) next_cell ?r1
             = (Inr ts, ?r1\<lparr>pos := pos ?r1 + length vec_r\<rparr>)"
    and len: "length ts = length vec_r"
    and exact: "length vec_r \<le> length (tl vec_c) \<longrightarrow>
           ts = zip (map narrow_int vec_r)
                  (zip (map (\<lambda>j. Some (narrow_int j)) (tl vec_c))
                     (block_at ?r1 (pos ?r1) (length vec_r)))"
    by blast
  let ?t = "(narrow_int i, (case vec_c of [] \<Rightarrow> None | j # _ \<Rightarrow> Some (narrow_int j)),
             cell_at r (pos r))"
  have run: "fill_triplets (i # vec_r) vec_c next_cell r
               = (Inr (?t # ts), r\<lparr>pos := pos r + length (i # vec_r)\<rparr>)"
    using first rest by (simp add: bind_op_def ret_def)
  have "?t # ts = zip (map narrow_int (i # vec_r))
                    (zip (map (\<lambda>j. Some (narrow_int j)) vec_c)
                       (block_at r (pos r) (length (i # vec_r))))"
    if le: "length (i # vec_r) \<le> length vec_c"
  proof -
    from le obtain j vec_c' where c: "vec_c = j # vec_c'" by (cases vec_c) auto
    then have "length vec_r \<le> length (tl vec_c)" using le by simp
    with exact show ?thesis by (simp add: c block_at_Suc)
  qed
  with run len show ?case by (intro exI [of _ "?t # ts"]) simp
qed




lemma sparse_matrix_guard:
  "n = 0 \<or> m = 0 \<Longrightarrow>
   sparse_matrix vec_r vec_c n m r = (Inr \<lparr>sp_rows = n, sp_cols = m, sp_triplets = []\<rparr>, r)"
  by (auto simp add: sparse_matrix_def fill_sparse_def bind_op_def ret_def empty_sparse_def)

subsection \<open>Dense matrices are read column by column\<close>

text \<open>
  C1. For \<open>n \<ge> 1\<close> and \<open>m \<ge> 1\<close>, when the matrix can be constructed and the cursor plus
  \<open>n * m\<close> stays below \<open>2^64\<close>, \<open>matrix(n, m)\<close> returns a matrix with \<open>n\<close> rows and \<open>m\<close>
  columns made of the next \<open>n * m\<close> cells of the scalar sequence in column-major order:
  coefficient \<open>(i, j)\<close> is the cell \<open>j * n + i\<close> places after the cursor, which is that
  element of the sequence whenever \<open>n * m\<close> scalars remain. The cursor advances by
  \<open>n * m\<close>.
\<close>

theorem matrix_column_major:
  assumes "1 \<le> n" and "1 \<le> m" and "room r (n * m)"
  shows "\<exists>M. matrix n m r = (Inr M, r\<lparr>pos := pos r + n * m\<rparr>) \<and>
             rows M = n \<and> cols M = m \<and> length (coeffs M) = n * m \<and>
             (\<forall>i<n. \<forall>j<m. coeff M i j = cell_at r (pos r + (j * n + i))) \<and>
             (pos r + n * m \<le> length (data_r r) \<longrightarrow>
                (\<forall>i<n. \<forall>j<m. coeff M i j = Some (data_r r ! (pos r + (j * n + i)))))"
proof -
  have idx: "j * n + i < n * m" if "i < n" "j < m" for i j
  proof -
    have "j * n + i < j * n + n" using that by simp
    also have "\<dots> = Suc j * n" by simp
    also have "\<dots> \<le> m * n" using that by (intro mult_le_mono1) simp
    finally show ?thesis by (simp add: mult.commute)
  qed
  let ?M = "\<lparr>rows = n, cols = m, coeffs = block_at r (pos r) (n * m)\<rparr>"
  have c: "coeff ?M i j = cell_at r (pos r + (j * n + i))" if "i < n" "j < m" for i j
    using idx [OF that] by (simp add: coeff_def nth_block_at)
  have d: "cell_at r (pos r + (j * n + i)) = Some (data_r r ! (pos r + (j * n + i)))"
    if "i < n" "j < m" "pos r + n * m \<le> length (data_r r)" for i j
    using idx [OF that(1,2)] that(3) by (simp add: cell_at_def)
  show ?thesis
    by (rule exI [of _ ?M]) (simp add: matrix_eq [OF assms(3)] c d)
qed

text \<open>
  With the next scalars 1, 2, 3, 4, 5, 6, \<open>matrix(2, 3)\<close> has row 0 = (1, 3, 5) and
  the columns (1, 2), (3, 4), (5, 6), and the cursor ends at 6.
\<close>

theorem matrix_column_major_witness:
  "(1::nat) \<le> 2 \<and> (1::nat) \<le> 3 \<and>
   room \<lparr>data_r = [1, 2, 3, 4, 5, 6 :: int], data_i = [], pos = 0, int_pos = 0,
         can_construct = (\<lambda>k. k \<le> 6)\<rparr> (2 * 3) \<and>
   (\<exists>M. matrix 2 3 \<lparr>data_r = [1, 2, 3, 4, 5, 6 :: int], data_i = [], pos = 0, int_pos = 0,
                     can_construct = (\<lambda>k. k \<le> 6)\<rparr>
          = (Inr M, \<lparr>data_r = [1, 2, 3, 4, 5, 6], data_i = [], pos = 6, int_pos = 0,
                     can_construct = (\<lambda>k. k \<le> 6)\<rparr>) \<and>
        rows M = 2 \<and> cols M = 3 \<and>
        [coeff M 0 0, coeff M 0 1, coeff M 0 2] = [Some 1, Some 3, Some 5] \<and>
        [coeff M 0 0, coeff M 1 0] = [Some 1, Some 2] \<and>
        [coeff M 0 1, coeff M 1 1] = [Some 3, Some 4] \<and>
        [coeff M 0 2, coeff M 1 2] = [Some 5, Some 6])"
  using matrix_column_major
    [of 2 3 "\<lparr>data_r = [1, 2, 3, 4, 5, 6 :: int], data_i = [], pos = 0, int_pos = 0,
               can_construct = (\<lambda>k. k \<le> 6)\<rparr>"]
  by (auto simp add: cell_at_def room_def)

subsection \<open>Single reads are checked\<close>

text \<open>
  C3. \<open>scalar()\<close> and \<open>integer()\<close> check before they read. While the cursor is
  inside the sequence the call returns the element at the cursor and moves that cursor
  by one; with the cursor at or past the end it throws
  (\<open>no more scalars to read\<close>, \<open>no more integers to read.\<close>), returns no value and
  leaves the reader as it was.
\<close>

theorem scalar_integer_check_then_advance:
  "(pos r < length (data_r r) \<longrightarrow>
      scalar r = (Inr (data_r r ! pos r), r\<lparr>pos := pos r + 1\<rparr>)) \<and>
   (length (data_r r) \<le> pos r \<longrightarrow>
      scalar r = (Inl (Runtime_error ''no more scalars to read''), r)) \<and>
   (int_pos r < length (data_i r) \<longrightarrow>
      integer r = (Inr (data_i r ! int_pos r), r\<lparr>int_pos := int_pos r + 1\<rparr>)) \<and>
   (length (data_i r) \<le> int_pos r \<longrightarrow>
      integer r = (Inl (Runtime_error ''no more integers to read.''), r))"
  by (simp add: scalar_def integer_def)

text \<open>
  The integers 3, 5: the first read returns 3, the second 5, the third fails and
  leaves the cursor at 2.
\<close>

theorem scalar_integer_check_then_advance_witness:
  "integer \<lparr>data_r = [] :: int list, data_i = [3, 5], pos = 0, int_pos = 0,
        can_construct = (\<lambda>k. True)\<rparr>
     = (Inr 3, \<lparr>data_r = [], data_i = [3, 5], pos = 0, int_pos = 1,
        can_construct = (\<lambda>k. True)\<rparr>) \<and>
   integer \<lparr>data_r = [] :: int list, data_i = [3, 5], pos = 0, int_pos = 1,
        can_construct = (\<lambda>k. True)\<rparr>
     = (Inr 5, \<lparr>data_r = [], data_i = [3, 5], pos = 0, int_pos = 2,
        can_construct = (\<lambda>k. True)\<rparr>) \<and>
   integer \<lparr>data_r = [] :: int list, data_i = [3, 5], pos = 0, int_pos = 2,
        can_construct = (\<lambda>k. True)\<rparr>
     = (Inl (Runtime_error ''no more integers to read.''),
        \<lparr>data_r = [], data_i = [3, 5], pos = 0, int_pos = 2,
        can_construct = (\<lambda>k. True)\<rparr>) \<and>
   scalar \<lparr>data_r = [7 :: int], data_i = [], pos = 0, int_pos = 0,
        can_construct = (\<lambda>k. True)\<rparr>
     = (Inr 7, \<lparr>data_r = [7], data_i = [], pos = 1, int_pos = 0,
        can_construct = (\<lambda>k. True)\<rparr>) \<and>
   scalar \<lparr>data_r = [7 :: int], data_i = [], pos = 1, int_pos = 0,
        can_construct = (\<lambda>k. True)\<rparr>
     = (Inl (Runtime_error ''no more scalars to read''),
        \<lparr>data_r = [7], data_i = [], pos = 1, int_pos = 0,
        can_construct = (\<lambda>k. True)\<rparr>)"
  using scalar_integer_check_then_advance
      [of "\<lparr>data_r = [] :: int list, data_i = [3, 5], pos = 0, int_pos = 0,
        can_construct = (\<lambda>k. True)\<rparr>"]
    scalar_integer_check_then_advance
      [of "\<lparr>data_r = [] :: int list, data_i = [3, 5], pos = 0, int_pos = 1,
        can_construct = (\<lambda>k. True)\<rparr>"]
    scalar_integer_check_then_advance
      [of "\<lparr>data_r = [] :: int list, data_i = [3, 5], pos = 0, int_pos = 2,
        can_construct = (\<lambda>k. True)\<rparr>"]
    scalar_integer_check_then_advance
      [of "\<lparr>data_r = [7 :: int], data_i = [], pos = 0, int_pos = 0,
        can_construct = (\<lambda>k. True)\<rparr>"]
    scalar_integer_check_then_advance
      [of "\<lparr>data_r = [7 :: int], data_i = [], pos = 1, int_pos = 0,
        can_construct = (\<lambda>k. True)\<rparr>"]
  by simp

subsection \<open>Bulk reads are not checked\<close>




text \<open>
  \<open>sparse_matrix_lb\<close>, like the other sparse accessors with bounds, stops with the
  exception of \<open>scalar()\<close> at the end of the data.
\<close>

lemma sparse_matrix_lb_checked_example:
  "sparse_matrix_lb (\<lambda>_ _ _ _. None) (0 :: int) [0, 1] [1, 0] 2 2
       \<lparr>data_r = [1 :: int], data_i = [], pos = 0, int_pos = 0, can_construct = (\<lambda>k. True)\<rparr>
     = (Inl (Runtime_error ''no more scalars to read''),
        \<lparr>data_r = [1], data_i = [], pos = 1, int_pos = 0, can_construct = (\<lambda>k. True)\<rparr>)"
  by (simp add: sparse_matrix_lb_def fill_sparse_def scalar_lb_def bind_op_def scalar_def
      checked_def ret_def constructed_def)

subsection \<open>Bounded integers are read first and validated second\<close>

text \<open>
  C5. With a next integer to read, \<open>integer_lub\<close>, \<open>integer_lb\<close> and \<open>integer_ub\<close>
  advance the integer cursor by exactly one whatever the bounds, before any check of
  them. \<open>integer_lub\<close> then reports \<open>lb > ub\<close> first, with a message of its own, and a
  value outside \<open>[lb, ub]\<close> second; an integer inside the bounds is returned as it is.
\<close>

theorem integer_bounds_consume_first:
  assumes "int_pos r < length (data_i r)"
  shows
    "snd (integer_lub lb ub r) = r\<lparr>int_pos := int_pos r + 1\<rparr> \<and>
     snd (integer_lb lb r) = r\<lparr>int_pos := int_pos r + 1\<rparr> \<and>
     snd (integer_ub ub r) = r\<lparr>int_pos := int_pos r + 1\<rparr> \<and>
     (ub < lb \<longrightarrow>
        fst (integer_lub lb ub r)
          = Inl (Runtime_error ''lower bound must be less than or equal to ub'')) \<and>
     (lb \<le> ub \<and> data_i r ! int_pos r < lb \<longrightarrow>
        fst (integer_lub lb ub r)
          = Inl (Runtime_error ''required value greater than or equal to lb'')) \<and>
     (lb \<le> ub \<and> ub < data_i r ! int_pos r \<longrightarrow>
        fst (integer_lub lb ub r)
          = Inl (Runtime_error ''required value less than or equal to ub'')) \<and>
     (lb \<le> data_i r ! int_pos r \<and> data_i r ! int_pos r \<le> ub \<longrightarrow>
        fst (integer_lub lb ub r) = Inr (data_i r ! int_pos r)) \<and>
     fst (integer_lb lb r)
       = (if lb \<le> data_i r ! int_pos r then Inr (data_i r ! int_pos r)
          else Inl (Runtime_error ''required value greater than or equal to lb'')) \<and>
     fst (integer_ub ub r)
       = (if data_i r ! int_pos r \<le> ub then Inr (data_i r ! int_pos r)
          else Inl (Runtime_error ''required value less than or equal to ub'')) \<and>
     Runtime_error ''lower bound must be less than or equal to ub''
       \<noteq> Runtime_error ''required value greater than or equal to lb'' \<and>
     Runtime_error ''lower bound must be less than or equal to ub''
       \<noteq> Runtime_error ''required value less than or equal to ub''"
proof -
  have step: "bind_op integer g r = g (data_i r ! int_pos r) (r\<lparr>int_pos := int_pos r + 1\<rparr>)"
    for g :: "int \<Rightarrow> ('a reader, int) action"
    using assms by (simp add: bind_op_def integer_def)
  show ?thesis
    by (simp add: integer_lub_def integer_lb_def integer_ub_def step ret_def raise_def)
qed

text \<open>
  Bounds 2 and 5 with the next integer 7: a range violation, and the cursor is at 1.
\<close>

theorem integer_bounds_consume_first_witness:
  "integer_lub 2 5 \<lparr>data_r = [] :: int list, data_i = [7], pos = 0, int_pos = 0,
        can_construct = (\<lambda>k. True)\<rparr>
     = (Inl (Runtime_error ''required value less than or equal to ub''),
        \<lparr>data_r = [], data_i = [7], pos = 0, int_pos = 1,
        can_construct = (\<lambda>k. True)\<rparr>) \<and>
   integer_lub 5 2 \<lparr>data_r = [] :: int list, data_i = [3], pos = 0, int_pos = 0,
        can_construct = (\<lambda>k. True)\<rparr>
     = (Inl (Runtime_error ''lower bound must be less than or equal to ub''),
        \<lparr>data_r = [], data_i = [3], pos = 0, int_pos = 1,
        can_construct = (\<lambda>k. True)\<rparr>) \<and>
   integer_lb 4 \<lparr>data_r = [] :: int list, data_i = [3], pos = 0, int_pos = 0,
        can_construct = (\<lambda>k. True)\<rparr>
     = (Inl (Runtime_error ''required value greater than or equal to lb''),
        \<lparr>data_r = [], data_i = [3], pos = 0, int_pos = 1,
        can_construct = (\<lambda>k. True)\<rparr>)"
  using integer_bounds_consume_first
      [of "\<lparr>data_r = [] :: int list, data_i = [7], pos = 0, int_pos = 0,
        can_construct = (\<lambda>k. True)\<rparr>" 2 5]
    integer_bounds_consume_first
      [of "\<lparr>data_r = [] :: int list, data_i = [3], pos = 0, int_pos = 0,
        can_construct = (\<lambda>k. True)\<rparr>" 5 2]
    integer_bounds_consume_first
      [of "\<lparr>data_r = [] :: int list, data_i = [3], pos = 0, int_pos = 0,
        can_construct = (\<lambda>k. True)\<rparr>" 4 0]
  by (simp add: prod_eq_iff)

text \<open>
  Without a next integer the three accessors fail in \<open>integer()\<close>, and nothing is
  consumed.
\<close>

lemma integer_bounds_on_exhausted:
  assumes "length (data_i r) \<le> int_pos r"
  shows "integer_lub lb ub r = (Inl (Runtime_error ''no more integers to read.''), r)"
    and "integer_lb lb r = (Inl (Runtime_error ''no more integers to read.''), r)"
    and "integer_ub ub r = (Inl (Runtime_error ''no more integers to read.''), r)"
  using assms
  by (simp_all add: integer_lub_def integer_lb_def integer_ub_def bind_op_def integer_def)

subsection \<open>Unit vectors and simplexes of size zero\<close>

text \<open>
  C6. \<open>unit_vector(0)\<close>, \<open>unit_vector_constrain(0)\<close>, \<open>simplex(0)\<close> and
  \<open>simplex_constrain(0)\<close>, with or without the accumulator, throw
  \<open>std::invalid_argument\<close> before anything is read: the reader, and the accumulator,
  are unchanged.
\<close>

theorem zero_size_fails_before_reading:
  "unit_vector check_unit_vector 0 r
     = (Inl (Invalid_argument ''io::unit_vector: unit vectors cannot be size 0.''), r) \<and>
   unit_vector_constrain unit_vector_constrain_fn 0 r
     = (Inl (Invalid_argument ''io::unit_vector_constrain: unit vectors cannot be size 0.''), r) \<and>
   unit_vector_constrain_lp unit_vector_constrain_lp_fn 0 (lp, r)
     = (Inl (Invalid_argument ''io::unit_vector_constrain: unit vectors cannot be size 0.''), (lp, r)) \<and>
   simplex check_simplex 0 r
     = (Inl (Invalid_argument ''io::simplex: simplexes cannot be size 0.''), r) \<and>
   simplex_constrain simplex_constrain_fn 0 r
     = (Inl (Invalid_argument ''io::simplex_constrain: simplexes cannot be size 0.''), r) \<and>
   simplex_constrain_lp simplex_constrain_lp_fn 0 (lp, r)
     = (Inl (Invalid_argument ''io::simplex_constrain: simplexes cannot be size 0.''), (lp, r))"
  by (simp add: unit_vector_def unit_vector_constrain_def unit_vector_constrain_lp_def
      simplex_def simplex_constrain_def simplex_constrain_lp_def raise_def)

subsection \<open>A dimension of zero\<close>

text \<open>
  C10. \<open>matrix(n, m)\<close> with \<open>n = 0\<close> or \<open>m = 0\<close>, \<open>vector(0)\<close>, \<open>row_vector(0)\<close> and
  \<open>std_vector(0)\<close> return the empty container of the requested shape, throw nothing
  and leave the reader unchanged.
\<close>

theorem zero_dimension_reads_nothing:
  "(n = 0 \<or> m = 0 \<longrightarrow> matrix n m r = (Inr \<lparr>rows = n, cols = m, coeffs = []\<rparr>, r)) \<and>
   vector 0 r = (Inr [], r) \<and>
   row_vector 0 r = (Inr [], r) \<and>
   std_vector 0 r = (Inr [], r)"
  by (auto simp add: matrix_def vector_def row_vector_def std_vector_def empty_matrix_def
      bind_op_def constructed_def)

theorem zero_dimension_reads_nothing_witness:
  "matrix 0 3 \<lparr>data_r = [1, 2 :: int], data_i = [], pos = 1, int_pos = 0,
        can_construct = (\<lambda>k. True)\<rparr>
     = (Inr \<lparr>rows = 0, cols = 3, coeffs = []\<rparr>,
        \<lparr>data_r = [1, 2], data_i = [], pos = 1, int_pos = 0,
        can_construct = (\<lambda>k. True)\<rparr>) \<and>
   matrix 2 0 \<lparr>data_r = [1, 2 :: int], data_i = [], pos = 1, int_pos = 0,
        can_construct = (\<lambda>k. True)\<rparr>
     = (Inr \<lparr>rows = 2, cols = 0, coeffs = []\<rparr>,
        \<lparr>data_r = [1, 2], data_i = [], pos = 1, int_pos = 0,
        can_construct = (\<lambda>k. True)\<rparr>)"
  using zero_dimension_reads_nothing
      [of 0 3 "\<lparr>data_r = [1, 2 :: int], data_i = [], pos = 1, int_pos = 0,
        can_construct = (\<lambda>k. True)\<rparr>"]
    zero_dimension_reads_nothing
      [of 2 0 "\<lparr>data_r = [1, 2 :: int], data_i = [], pos = 1, int_pos = 0,
        can_construct = (\<lambda>k. True)\<rparr>"]
  by simp

subsection \<open>Unconstrained sizes\<close>

lemma snd_bind_checked: "snd (bind_op f (\<lambda>x. checked (c x) x) s) = snd (f s)"
  by (simp add: bind_op_def checked_def ret_def raise_def
      split: prod.splits sum.splits option.splits)

lemma snd_bind_external: "snd (bind_op f (\<lambda>x. external (t x)) s) = snd (f s)"
  by (simp add: bind_op_def external_def ret_def raise_def split: prod.splits sum.splits)

lemma reader_bind_external_lp:
  "snd (snd (bind_op (with_lp f) (\<lambda>x. external_lp (t x)) (lp, r))) = snd (f r)"
  by (simp add: bind_op_def external_lp_def with_lp_def split: prod.splits sum.splits)

lemma pos_vector: "room r m \<Longrightarrow> pos (snd (vector m r)) = pos r + m"
  by (simp add: vector_eq)

lemma pos_matrix: "room r (n * m) \<Longrightarrow> pos (snd (matrix n m r)) = pos r + n * m"
  by (simp add: matrix_eq)

text \<open>
  The sizes are the entries of the table as long as no operation of them wraps
  around.
\<close>

lemma corr_size_eq:
  assumes "k * (k - 1) < 2 ^ 64"
  shows "corr_size k = (k * (k - 1)) div 2"
proof (cases k)
  case 0
  then show ?thesis by (simp add: corr_size_def size_t_def)
next
  case (Suc j)
  then have "size_t_minus k 1 = k - 1" by (simp add: size_t_minus_def)
  then show ?thesis using assms by (simp add: corr_size_def size_t_id)
qed

lemma cov_size_eq:
  assumes "k * (k - 1) < 2 ^ 64" and "k + (k * (k - 1)) div 2 < 2 ^ 64"
  shows "cov_size k = k + (k * (k - 1)) div 2"
proof -
  have "size_t (k * size_t_minus k 1) div 2 = (k * (k - 1)) div 2"
    using corr_size_eq [OF assms(1)] by (simp add: corr_size_def)
  then show ?thesis using assms(2) by (simp add: cov_size_def size_t_id)
qed

lemma cholesky_factor_cov_size_eq:
  assumes "m \<le> n" and "m * (m + 1) < 2 ^ 64"
    and "(m * (m + 1)) div 2 + (n - m) * m < 2 ^ 64"
  shows "cholesky_factor_cov_size n m = (m * (m + 1)) div 2 + (n - m) * m"
proof -
  have "m + 1 \<le> 2 ^ 64"
  proof (cases m)
    case 0
    then show ?thesis by simp
  next
    case (Suc j)
    then have "m + 1 \<le> m * (m + 1)" by simp
    then show ?thesis using assms(2) by simp
  qed
  moreover have "m + 1 \<noteq> 2 ^ 64"
  proof
    assume e: "m + 1 = 2 ^ 64"
    then have "(1::nat) \<le> m" by simp
    then have "m + 1 \<le> m * (m + 1)" by simp
    then show False using assms(2) e by simp
  qed
  ultimately have 1: "size_t (m + 1) = m + 1" by (simp add: size_t_id)
  have 2: "size_t (m * (m + 1)) = m * (m + 1)" using assms(2) by (simp add: size_t_id)
  have 3: "size_t_minus n m = n - m" using assms(1) by (simp add: size_t_minus_def)
  have "(n - m) * m < 2 ^ 64" using assms(3) by simp
  then have 4: "size_t ((n - m) * m) = (n - m) * m" by (simp add: size_t_id)
  show ?thesis
    unfolding cholesky_factor_cov_size_def 1 2 3 4 using assms(3) by (simp add: size_t_id)
qed

text \<open>
  Where an operation wraps around they are not: without the precondition \<open>n \<ge> m\<close> the
  size of a 1 by 4 Cholesky factor is \<open>2^64 - 2\<close>, and \<open>corr_matrix_constrain\<close> asks
  for \<open>2^31\<close> scalars at \<open>k = 2^32 + 1\<close>, where the table has \<open>2^63 + 2^31\<close>.
\<close>

lemma size_wraps_examples:
  "cholesky_factor_cov_size 1 4 = 2 ^ 64 - 2" and "corr_size (2 ^ 32 + 1) = 2 ^ 31"
  by (simp_all add: cholesky_factor_cov_size_def corr_size_def size_t_minus_def size_t_def)

text \<open>
  C2. The cursor advance of every constrained family depends on the requested
  dimensions only, whatever the data and whatever the libraries answer. When the
  vector or matrix read can be constructed, the size is computed without wrap-around
  and the cursor plus the size stays below \<open>2^64\<close>, the constrain forms, with or
  without the accumulator, advance the cursor by \<open>k\<close> (unit vector, ordered, positive
  ordered), \<open>k - 1\<close> (simplex, \<open>k \<ge> 1\<close>), \<open>m (m + 1) / 2 + (n - m) m\<close> (Cholesky factor
  of a covariance matrix, \<open>n \<ge> m\<close>), \<open>k (k - 1) / 2\<close> (Cholesky factor of a
  correlation matrix, correlation matrix) and \<open>k + k (k - 1) / 2\<close> (covariance
  matrix); the plain forms by the full size \<open>k\<close>, \<open>n m\<close> or \<open>k k\<close>.
\<close>

theorem unconstrained_sizes:
  "(room r k \<longrightarrow> pos (snd (unit_vector_constrain f1 k r)) = pos r + k) \<and>
   (room r k \<longrightarrow> pos (snd (snd (unit_vector_constrain_lp g1 k (lp, r)))) = pos r + k) \<and>
   (1 \<le> k \<and> room r (k - 1) \<longrightarrow> pos (snd (simplex_constrain f2 k r)) + 1 = pos r + k) \<and>
   (1 \<le> k \<and> room r (k - 1) \<longrightarrow>
      pos (snd (snd (simplex_constrain_lp g2 k (lp, r)))) + 1 = pos r + k) \<and>
   (room r k \<longrightarrow> pos (snd (ordered_constrain f3 k r)) = pos r + k) \<and>
   (room r k \<longrightarrow> pos (snd (snd (ordered_constrain_lp g3 k (lp, r)))) = pos r + k) \<and>
   (room r k \<longrightarrow> pos (snd (positive_ordered_constrain f4 k r)) = pos r + k) \<and>
   (room r k \<longrightarrow> pos (snd (snd (positive_ordered_constrain_lp g4 k (lp, r)))) = pos r + k) \<and>
   (m \<le> n \<and> m * (m + 1) < 2 ^ 64 \<and> room r ((m * (m + 1)) div 2 + (n - m) * m) \<longrightarrow>
      pos (snd (cholesky_factor_cov_constrain f5 n m r))
        = pos r + ((m * (m + 1)) div 2 + (n - m) * m)) \<and>
   (m \<le> n \<and> m * (m + 1) < 2 ^ 64 \<and> room r ((m * (m + 1)) div 2 + (n - m) * m) \<longrightarrow>
      pos (snd (snd (cholesky_factor_cov_constrain_lp g5 n m (lp, r))))
        = pos r + ((m * (m + 1)) div 2 + (n - m) * m)) \<and>
   (k * (k - 1) < 2 ^ 64 \<and> room r ((k * (k - 1)) div 2) \<longrightarrow>
      pos (snd (cholesky_factor_corr_constrain f6 k r)) = pos r + (k * (k - 1)) div 2) \<and>
   (k * (k - 1) < 2 ^ 64 \<and> room r ((k * (k - 1)) div 2) \<longrightarrow>
      pos (snd (snd (cholesky_factor_corr_constrain_lp g6 k (lp, r))))
        = pos r + (k * (k - 1)) div 2) \<and>
   (k * (k - 1) < 2 ^ 64 \<and> room r (k + (k * (k - 1)) div 2) \<longrightarrow>
      pos (snd (cov_matrix_constrain f7 k r)) = pos r + (k + (k * (k - 1)) div 2)) \<and>
   (k * (k - 1) < 2 ^ 64 \<and> room r (k + (k * (k - 1)) div 2) \<longrightarrow>
      pos (snd (snd (cov_matrix_constrain_lp g7 k (lp, r))))
        = pos r + (k + (k * (k - 1)) div 2)) \<and>
   (k * (k - 1) < 2 ^ 64 \<and> room r ((k * (k - 1)) div 2) \<longrightarrow>
      pos (snd (corr_matrix_constrain f8 k r)) = pos r + (k * (k - 1)) div 2) \<and>
   (k * (k - 1) < 2 ^ 64 \<and> room r ((k * (k - 1)) div 2) \<longrightarrow>
      pos (snd (snd (corr_matrix_constrain_lp g8 k (lp, r)))) = pos r + (k * (k - 1)) div 2) \<and>
   (room r k \<longrightarrow> pos (snd (unit_vector c1 k r)) = pos r + k) \<and>
   (room r k \<longrightarrow> pos (snd (simplex c2 k r)) = pos r + k) \<and>
   (room r k \<longrightarrow> pos (snd (ordered c3 k r)) = pos r + k) \<and>
   (room r k \<longrightarrow> pos (snd (positive_ordered c4 k r)) = pos r + k) \<and>
   (room r (n * m) \<longrightarrow> pos (snd (cholesky_factor_cov c5 n m r)) = pos r + n * m) \<and>
   (room r (k * k) \<longrightarrow> pos (snd (cholesky_factor_corr c6 k r)) = pos r + k * k) \<and>
   (room r (k * k) \<longrightarrow> pos (snd (cov_matrix c7 k r)) = pos r + k * k) \<and>
   (room r (k * k) \<longrightarrow> pos (snd (corr_matrix c8 k r)) = pos r + k * k)"
proof -
  have cov: "cov_size k = k + (k * (k - 1)) div 2"
    if "k * (k - 1) < 2 ^ 64" "room r (k + (k * (k - 1)) div 2)"
    using that by (intro cov_size_eq) (simp_all add: room_def)
  have chol: "cholesky_factor_cov_size n m = (m * (m + 1)) div 2 + (n - m) * m"
    if "m \<le> n" "m * (m + 1) < 2 ^ 64" "room r ((m * (m + 1)) div 2 + (n - m) * m)"
    using that by (intro cholesky_factor_cov_size_eq) (simp_all add: room_def)
  show ?thesis
    by (simp add: unit_vector_constrain_def unit_vector_constrain_lp_def
        simplex_constrain_def simplex_constrain_lp_def
        ordered_constrain_def ordered_constrain_lp_def
        positive_ordered_constrain_def positive_ordered_constrain_lp_def
        cholesky_factor_cov_constrain_def cholesky_factor_cov_constrain_lp_def
        cholesky_factor_corr_constrain_def cholesky_factor_corr_constrain_lp_def
        cov_matrix_constrain_def cov_matrix_constrain_lp_def
        corr_matrix_constrain_def corr_matrix_constrain_lp_def
        unit_vector_def simplex_def ordered_def positive_ordered_def
        cholesky_factor_cov_def cholesky_factor_corr_def cov_matrix_def corr_matrix_def
        snd_bind_checked snd_bind_external reader_bind_external_lp raise_def
        chol corr_size_eq cov size_t_minus_le pos_vector pos_matrix)
qed

text \<open>
  \<open>simplex_constrain(3)\<close> consumes 2 scalars; a 3 by 2 Cholesky factor consumes 5.
\<close>

theorem unconstrained_sizes_witness:
  "(1 \<le> (3::nat) \<and>
    room \<lparr>data_r = [1, 2, 3, 4, 5, 6 :: int], data_i = [], pos = 0, int_pos = 0,
          can_construct = (\<lambda>k. k \<le> 6)\<rparr> (3 - 1)) \<and>
   pos (snd (simplex_constrain (\<lambda>x. Inr x)
       3 \<lparr>data_r = [1, 2, 3, 4, 5, 6 :: int], data_i = [], pos = 0, int_pos = 0,
          can_construct = (\<lambda>k. k \<le> 6)\<rparr>)) + 1 = 0 + 3 \<and>
   ((2::nat) \<le> 3 \<and> (2::nat) * (2 + 1) < 2 ^ 64 \<and>
    room \<lparr>data_r = [1, 2, 3, 4, 5, 6 :: int], data_i = [], pos = 0, int_pos = 0,
          can_construct = (\<lambda>k. k \<le> 6)\<rparr> ((2 * (2 + 1)) div 2 + (3 - 2) * 2)) \<and>
   pos (snd (cholesky_factor_cov_constrain (\<lambda>x n m. Inr x)
       3 2 \<lparr>data_r = [1, 2, 3, 4, 5, 6 :: int], data_i = [], pos = 0, int_pos = 0,
            can_construct = (\<lambda>k. k \<le> 6)\<rparr>)) = 0 + 5 \<and>
   ((3::nat) * (3 - 1) < 2 ^ 64 \<and>
    room \<lparr>data_r = [1, 2, 3, 4, 5, 6 :: int], data_i = [], pos = 0, int_pos = 0,
          can_construct = (\<lambda>k. k \<le> 6)\<rparr> ((3 * (3 - 1)) div 2)) \<and>
   pos (snd (corr_matrix_constrain (\<lambda>x k. Inr x)
       3 \<lparr>data_r = [1, 2, 3, 4, 5, 6 :: int], data_i = [], pos = 0, int_pos = 0,
          can_construct = (\<lambda>k. k \<le> 6)\<rparr>)) = 0 + 3"
proof -
  let ?r = "\<lparr>data_r = [1, 2, 3, 4, 5, 6 :: int], data_i = [], pos = 0, int_pos = 0,
             can_construct = (\<lambda>k. k \<le> 6)\<rparr>"
  have h1: "1 \<le> (3::nat) \<and> room ?r (3 - 1)"
    by (simp add: room_def)
  have h2: "(2::nat) \<le> 3 \<and> (2::nat) * (2 + 1) < 2 ^ 64
              \<and> room ?r ((2 * (2 + 1)) div 2 + (3 - 2) * 2)"
    by (simp add: room_def)
  have h3: "(3::nat) * (3 - 1) < 2 ^ 64 \<and> room ?r ((3 * (3 - 1)) div 2)"
    by (simp add: room_def)
  note t = unconstrained_sizes [where k = 3 and n = 3 and m = 2 and r = ?r]
  have 1: "pos (snd (simplex_constrain (\<lambda>x. Inr x :: error + int option list) 3 ?r)) + 1
             = pos ?r + 3"
    by (rule t [THEN conjunct2, THEN conjunct2, THEN conjunct1, THEN mp, OF h1])
  have 2: "pos (snd (cholesky_factor_cov_constrain
                       (\<lambda>x n m. Inr x :: error + int option list) 3 2 ?r))
             = pos ?r + ((2 * (2 + 1)) div 2 + (3 - 2) * 2)"
    by (rule t [THEN conjunct2, THEN conjunct2, THEN conjunct2, THEN conjunct2, THEN conjunct2,
             THEN conjunct2, THEN conjunct2, THEN conjunct2, THEN conjunct1, THEN mp, OF h2])
  have 3: "pos (snd (corr_matrix_constrain (\<lambda>x k. Inr x :: error + int option list) 3 ?r))
             = pos ?r + (3 * (3 - 1)) div 2"
    by (rule t [THEN conjunct2, THEN conjunct2, THEN conjunct2, THEN conjunct2, THEN conjunct2,
             THEN conjunct2, THEN conjunct2, THEN conjunct2, THEN conjunct2, THEN conjunct2,
             THEN conjunct2, THEN conjunct2, THEN conjunct2, THEN conjunct2, THEN conjunct1,
             THEN mp, OF h3])
  show ?thesis
    using h1 h2 h3 1 2 3 by simp
qed

subsection \<open>Sparse matrices\<close>

text \<open>
  C7 says that the result of \<open>sparse_matrix\<close> is the matrix built from the triplets
  (\<open>rowIdx[i]\<close>, \<open>colIdx[i]\<close>, \<open>i\<close>-th consumed scalar). The triplet list is constructed
  with \<open>vec_r.size()\<close> elements and then appended to, so the matrix is built from one
  default triplet (0, 0, 0) for each listed entry, followed by the listed ones: with
  the single entry (1, 1) and the next scalar 5 the list is (0, 0, 0), (1, 1, 5).
  \<open>sparse_matrix_lb\<close>, which reserves room and appends, builds its matrix from
  (1, 1, 5) alone.
\<close>

theorem sparse_matrix_default_triplets:
  "sparse_matrix [1] [1] 2 2
       \<lparr>data_r = [5 :: int], data_i = [], pos = 0, int_pos = 0, can_construct = (\<lambda>k. True)\<rparr>
     = (Inr \<lparr>sp_rows = 2, sp_cols = 2,
             sp_triplets = [(0, Some 0, Some 0), (1, Some 1, Some 5)]\<rparr>,
        \<lparr>data_r = [5], data_i = [], pos = 1, int_pos = 0, can_construct = (\<lambda>k. True)\<rparr>) \<and>
   sparse_matrix_lb (\<lambda>_ _ _ _. None) (0 :: int) [1] [1] 2 2
       \<lparr>data_r = [5 :: int], data_i = [], pos = 0, int_pos = 0, can_construct = (\<lambda>k. True)\<rparr>
     = (Inr \<lparr>sp_rows = 2, sp_cols = 2, sp_triplets = [(1, Some 1, 5)]\<rparr>,
        \<lparr>data_r = [5], data_i = [], pos = 1, int_pos = 0, can_construct = (\<lambda>k. True)\<rparr>)"
  by (simp add: sparse_matrix_def sparse_matrix_lb_def fill_sparse_def bind_op_def ret_def
      constructed_def next_cell_def scalar_ptr_increment_def size_t_def size_t_minus_def
      cell_at_def scalar_lb_def scalar_def checked_def from_triplets_def presized_def
      narrow_int_def)

subsection \<open>Batches with offset and multiplier\<close>

text \<open>
  The dense batches do what C8 says of them. A loop over a scalar accessor that
  returns \<open>g\<close> of the next scalar yields \<open>g\<close> of the next scalars in their order, and
  the two loops of a matrix put the scalar \<open>j * n + i\<close> places after the cursor at
  row \<open>i\<close>, column \<open>j\<close>.
\<close>

lemma fill_blocks:
  assumes step: "\<And>r. pos r + n \<le> length (data_r r) \<Longrightarrow>
                   F r = (Inr (h (data_r r) (pos r)), r\<lparr>pos := pos r + n\<rparr>)"
    and room: "pos r + k * n \<le> length (data_r r)"
  shows "fill k F r = (Inr (map (\<lambda>j. h (data_r r) (pos r + j * n)) [0..<k]), r\<lparr>pos := pos r + k * n\<rparr>)"
  using room
proof (induction k arbitrary: r)
  case 0
  then show ?case by (simp add: ret_def)
next
  case (Suc k)
  let ?r1 = "r\<lparr>pos := pos r + n\<rparr>"
  have first: "F r = (Inr (h (data_r r) (pos r)), ?r1)"
    using Suc.prems by (intro step) simp
  have "pos ?r1 + k * n \<le> length (data_r ?r1)"
    using Suc.prems by (simp add: add.assoc)
  then have rest: "fill k F ?r1
      = (Inr (map (\<lambda>j. h (data_r ?r1) (pos ?r1 + j * n)) [0..<k]), ?r1\<lparr>pos := pos ?r1 + k * n\<rparr>)"
    by (rule Suc.IH)
  have "fill (Suc k) F r
      = (Inr (h (data_r r) (pos r) # map (\<lambda>j. h (data_r r) (pos r + n + j * n)) [0..<k]),
         r\<lparr>pos := pos r + n + k * n\<rparr>)"
    using first rest by (simp add: bind_op_def ret_def)
  also have "h (data_r r) (pos r) # map (\<lambda>j. h (data_r r) (pos r + n + j * n)) [0..<k]
      = map (\<lambda>j. h (data_r r) (pos r + j * n)) [0..<Suc k]"
    by (simp add: map_upt_Suc add.assoc del: upt_Suc)
  finally show ?case by (simp add: add.assoc)
qed

lemma nth_concat_columns:
  assumes "\<And>c. c \<in> set cs \<Longrightarrow> length c = n" and "j < length cs" and "i < n"
  shows "concat cs ! (j * n + i) = cs ! j ! i"
  using assms
proof (induction cs arbitrary: j)
  case Nil
  then show ?case by simp
next
  case (Cons c cs)
  have len: "length c = n" using Cons.prems(1) by simp
  show ?case
  proof (cases j)
    case 0
    then show ?thesis using Cons.prems(3) len by (simp add: nth_append)
  next
    case (Suc j')
    then have "concat cs ! (j' * n + i) = cs ! j' ! i"
      using Cons.prems by (intro Cons.IH) auto
    then show ?thesis using Suc len by (simp add: nth_append)
  qed
qed

lemma fill_matrix_column_major:
  assumes step: "\<And>r. pos r < length (data_r r) \<Longrightarrow>
                   f r = (Inr (g (data_r r ! pos r)), r\<lparr>pos := pos r + 1\<rparr>)"
    and made: "n * m = 0 \<or> can_construct r (n * m)"
    and room: "pos r + n * m \<le> length (data_r r)"
  shows "\<exists>M. fill_matrix n m f r = (Inr M, r\<lparr>pos := pos r + n * m\<rparr>) \<and>
             rows M = n \<and> cols M = m \<and>
             (\<forall>i<n. \<forall>j<m. coeff M i j = g (data_r r ! (pos r + (j * n + i))))"
proof -
  define col where "col d p = map (\<lambda>i. g (d ! (p + i))) [0..<n]" for d :: "'a list" and p
  have inner: "fill n f r = (Inr (col (data_r r) (pos r)), r\<lparr>pos := pos r + n\<rparr>)"
    if "pos r + n \<le> length (data_r r)" for r
    using fill_blocks [of 1 f "\<lambda>d p. g (d ! p)" r n] step that by (simp add: col_def)
  have outer: "fill m (fill n f) r
      = (Inr (map (\<lambda>j. col (data_r r) (pos r + j * n)) [0..<m]), r\<lparr>pos := pos r + m * n\<rparr>)"
    using room by (intro fill_blocks inner) (simp_all add: mult.commute)
  have made': "constructed (m * n) r = (Inr (), r)"
    using made by (intro constructed_ok) (simp add: mult.commute)
  let ?cs = "map (\<lambda>j. col (data_r r) (pos r + j * n)) [0..<m]"
  let ?M = "\<lparr>rows = n, cols = m, coeffs = concat ?cs\<rparr>"
  have "coeff ?M i j = g (data_r r ! (pos r + (j * n + i)))" if "i < n" "j < m" for i j
  proof -
    have "concat ?cs ! (j * n + i) = ?cs ! j ! i"
      using that by (intro nth_concat_columns) (auto simp add: col_def)
    then show ?thesis using that by (simp add: coeff_def col_def add.assoc)
  qed
  then show ?thesis
    by (intro exI [of _ ?M])
      (simp add: fill_matrix_def bind_op_def made' outer ret_def mult.commute)
qed

lemma matrix_offset_multiplier_constrain_column_major:
  assumes "\<And>x. tf x offset multiplier = Inr (g x)"
    and "n * m = 0 \<or> can_construct r (n * m)"
    and "pos r + n * m \<le> length (data_r r)"
  shows "\<exists>M. matrix_offset_multiplier_constrain tf offset multiplier n m r
               = (Inr M, r\<lparr>pos := pos r + n * m\<rparr>) \<and>
             rows M = n \<and> cols M = m \<and>
             (\<forall>i<n. \<forall>j<m. coeff M i j = g (data_r r ! (pos r + (j * n + i))))"
  unfolding matrix_offset_multiplier_constrain_def
  using assms(2,3)
  by (intro fill_matrix_column_major)
    (simp_all add: scalar_offset_multiplier_constrain_def bind_op_def scalar_def external_def
      ret_def assms(1))

text \<open>
  C8 says that every stored element of \<open>sparse_matrix_offset_multiplier_constrain\<close>
  is \<open>scalar_offset_multiplier_constrain(offset, multiplier)\<close> of the next scalar. The
  accessor calls \<open>scalar_offset_multiplier\<close> instead and stores the scalar as it is
  read: with offset 1, multiplier 2 and the next scalar 3 the stored value is 3, where
  the scalar accessor with the transform \<open>mu + sigma * x\<close> returns 7.
\<close>

theorem sparse_offset_multiplier_constrain_untransformed:
  "sparse_matrix_offset_multiplier_constrain (1 :: int) (2 :: int) [0] [0] 1 1
       \<lparr>data_r = [3 :: int], data_i = [], pos = 0, int_pos = 0,
        can_construct = (\<lambda>k. True)\<rparr>
     = (Inr \<lparr>sp_rows = 1, sp_cols = 1, sp_triplets = [(0, Some 0, 0), (0, Some 0, 3)]\<rparr>,
        \<lparr>data_r = [3], data_i = [], pos = 1, int_pos = 0,
        can_construct = (\<lambda>k. True)\<rparr>) \<and>
   scalar_offset_multiplier_constrain (\<lambda>x mu sigma. Inr (mu + sigma * x)) (1 :: int) (2 :: int)
       \<lparr>data_r = [3 :: int], data_i = [], pos = 0, int_pos = 0,
        can_construct = (\<lambda>k. True)\<rparr>
     = (Inr 7, \<lparr>data_r = [3], data_i = [], pos = 1, int_pos = 0,
        can_construct = (\<lambda>k. True)\<rparr>)"
  by (simp add: sparse_matrix_offset_multiplier_constrain_def fill_sparse_def
      scalar_offset_multiplier_def scalar_offset_multiplier_constrain_def
      bind_op_def scalar_def ret_def external_def from_triplets_def presized_def
      constructed_def narrow_int_def)

lemma sparse_offset_multiplier_constrain_is_plain:
  "sparse_matrix_offset_multiplier_constrain offset multiplier vec_r vec_c n m
     = sparse_matrix_offset_multiplier offset multiplier vec_r vec_c n m"
  by (simp add: sparse_matrix_offset_multiplier_constrain_def sparse_matrix_offset_multiplier_def)

subsection \<open>The cursors and the wrap-around\<close>


text \<open>
  The building blocks of the member functions are forward, and sequencing, branching
  and the loops keep it so. The bulk extractors are forward within the number they
  add to the cursor.
\<close>

lemma not_before_refl [simp]: "not_before r r"
  by (simp add: not_before_def)

lemma not_before_trans: "not_before r r' \<Longrightarrow> not_before r' r'' \<Longrightarrow> not_before r r''"
  by (auto simp add: not_before_def)

lemma forward_ret [forward_intros]: "forward_on rd (ret v)"
  by (simp add: forward_on_def ret_def)

lemma forward_raise [forward_intros]: "forward_on rd (raise e)"
  by (simp add: forward_on_def raise_def)

lemma snd_bind_op_cases:
  "snd (bind_op f g s) = snd (f s) \<or> (\<exists>v. f s = (Inr v, snd (f s)) \<and> snd (bind_op f g s) = snd (g v (snd (f s))))"
  by (cases "f s"; cases "fst (f s)") (auto simp add: bind_op_def)

lemma forward_bind [forward_intros]:
  assumes "forward_on rd f" and "\<And>v. forward_on rd (g v)"
  shows "forward_on rd (bind_op f g)"
proof -
  have "not_before (rd s) (rd (snd (bind_op f g s)))" for s
  proof -
    have 1: "not_before (rd s) (rd (snd (f s)))"
      using assms(1) by (simp add: forward_on_def)
    have 2: "not_before (rd (snd (f s))) (rd (snd (g v (snd (f s)))))" for v
      using assms(2) [of v] by (simp add: forward_on_def)
    show ?thesis
      using snd_bind_op_cases [of f g s] 1 2 by (auto intro: not_before_trans)
  qed
  then show ?thesis by (simp add: forward_on_def)
qed

lemma within_bind [forward_intros]:
  assumes "forward_within rd k f" and "\<And>v. forward_on rd (g v)"
  shows "forward_within rd k (bind_op f g)"
proof -
  have "not_before (rd s) (rd (snd (bind_op f g s)))" if "pos (rd s) + k < 2 ^ 64" for s
  proof -
    have 1: "not_before (rd s) (rd (snd (f s)))"
      using assms(1) that by (simp add: forward_within_def)
    have 2: "not_before (rd (snd (f s))) (rd (snd (g v (snd (f s)))))" for v
      using assms(2) [of v] by (simp add: forward_on_def)
    show ?thesis
      using snd_bind_op_cases [of f g s] 1 2 by (auto intro: not_before_trans)
  qed
  then show ?thesis by (simp add: forward_within_def)
qed

lemma forward_if [forward_intros]:
  "forward_on rd f \<Longrightarrow> forward_on rd g \<Longrightarrow> forward_on rd (if b then f else g)"
  by simp

lemma within_if [forward_intros]:
  "forward_within rd k f \<Longrightarrow> forward_within rd k g \<Longrightarrow> forward_within rd k (if b then f else g)"
  by simp

lemma within_raise [forward_intros]: "forward_within rd k (raise e)"
  by (simp add: forward_within_def raise_def)

lemma forward_checked [forward_intros]: "forward_on rd (checked c v)"
  by (cases c) (simp_all add: checked_def forward_intros)

lemma forward_external [forward_intros]: "forward_on rd (external x)"
  by (cases x) (simp_all add: external_def forward_intros)

lemma forward_with_lp [forward_intros]: "forward f \<Longrightarrow> forward_lp (with_lp f)"
  by (simp add: forward_on_def with_lp_def split: prod.splits) (metis snd_conv)

lemma within_with_lp [forward_intros]: "within k f \<Longrightarrow> within_lp k (with_lp f)"
  by (simp add: forward_within_def with_lp_def split: prod.splits) (metis snd_conv)

lemma forward_external_lp [forward_intros]: "forward_lp (external_lp g)"
  by (simp add: forward_on_def external_lp_def split: sum.splits prod.splits)

lemma forward_constructed [forward_intros]: "forward (constructed k)"
  by (simp add: forward_on_def constructed_def)

lemma forward_fill [forward_intros]: "forward_on rd f \<Longrightarrow> forward_on rd (fill k f)"
  by (induction k) (simp_all add: forward_intros)

lemma forward_fill_vector [forward_intros]: "forward f \<Longrightarrow> forward (fill_vector m f)"
  by (simp add: fill_vector_def forward_intros)

lemma forward_fill_vector_lp [forward_intros]: "forward_lp f \<Longrightarrow> forward_lp (fill_vector_lp m f)"
  by (simp add: fill_vector_lp_def forward_intros)

lemma forward_fill_matrix [forward_intros]: "forward f \<Longrightarrow> forward (fill_matrix n m f)"
  by (simp add: fill_matrix_def forward_intros)

lemma forward_fill_matrix_lp [forward_intros]:
  "forward_lp f \<Longrightarrow> forward_lp (fill_matrix_lp n m f)"
  by (simp add: fill_matrix_lp_def forward_intros)

lemma forward_fill_triplets [forward_intros]:
  "forward_on rd f \<Longrightarrow> forward_on rd (fill_triplets vec_r vec_c f)"
  by (induction vec_r arbitrary: vec_c) (simp_all add: forward_intros)

lemma forward_fill_sparse [forward_intros]:
  "forward f \<Longrightarrow> forward (fill_sparse sized z vec_r vec_c n m f)"
  by (simp add: fill_sparse_def forward_intros)

lemma forward_fill_sparse_lp [forward_intros]:
  "forward_lp f \<Longrightarrow> forward_lp (fill_sparse_lp z vec_r vec_c n m f)"
  by (simp add: fill_sparse_lp_def forward_intros)

lemma forward_integer [forward_intros]: "forward integer"
  by (simp add: forward_on_def integer_def not_before_def)

lemma forward_scalar [forward_intros]: "forward scalar"
  by (simp add: forward_on_def scalar_def not_before_def)

lemma within_std_vector [forward_intros]: "within m (std_vector m)"
  by (simp add: forward_within_def std_vector_def bind_op_def constructed_def size_t_id
      not_before_def)

lemma within_vector [forward_intros]: "within m (vector m)"
  by (simp add: forward_within_def vector_def bind_op_def constructed_def
      scalar_ptr_increment_eq not_before_def)

lemma within_row_vector [forward_intros]: "within m (row_vector m)"
  by (simp add: forward_within_def row_vector_def bind_op_def constructed_def
      scalar_ptr_increment_eq not_before_def)

lemma within_matrix [forward_intros]: "within (size_t (n * m)) (matrix n m)"
  by (simp add: forward_within_def matrix_def bind_op_def constructed_def
      scalar_ptr_increment_eq not_before_def)

lemma within_sparse_matrix [forward_intros]:
  "within (length vec_r) (sparse_matrix vec_r vec_c n m)"
proof -
  have "not_before r (snd (sparse_matrix vec_r vec_c n m r))"
    if p: "pos r + length vec_r < 2 ^ 64" for r :: "'a reader"
  proof -
    from fill_triplets_next_cell [OF p, of vec_c]
    obtain ts where
      run: "fill_triplets vec_r vec_c next_cell r = (Inr ts, r\<lparr>pos := pos r + length vec_r\<rparr>)"
      by blast
    show ?thesis
      by (simp add: sparse_matrix_def fill_sparse_def bind_op_def ret_def constructed_def run
          not_before_def)
  qed
  then show ?thesis by (simp add: forward_within_def)
qed

lemma within_simplex_constrain [forward_intros]: "within (k - 1) (simplex_constrain f k)"
proof (cases "k = 0")
  case True
  then show ?thesis by (simp add: simplex_constrain_def forward_intros)
next
  case False
  then have "size_t_minus k 1 = k - 1" by (simp add: size_t_minus_def)
  with False show ?thesis
    using within_bind [OF within_vector [of "k - 1"], of "\<lambda>x. external (f x)"]
    by (simp add: simplex_constrain_def forward_intros)
qed

lemma within_simplex_constrain_lp [forward_intros]:
  "within_lp (k - 1) (simplex_constrain_lp f k)"
proof (cases "k = 0")
  case True
  then show ?thesis by (simp add: simplex_constrain_lp_def forward_intros)
next
  case False
  then have "size_t_minus k 1 = k - 1" by (simp add: size_t_minus_def)
  with False show ?thesis
    using within_bind [OF within_with_lp [OF within_vector [of "k - 1"]],
        of "\<lambda>x. external_lp (f x)"]
    by (simp add: simplex_constrain_lp_def forward_intros)
qed



end
